theory Spec2Isabelle
  imports Main "HOL-Library.Product_Lexorder"
begin

section \<open>The paradox analyzer of \<^verbatim>\<open>app/test.py\<close>\<close>

text \<open>
  The module holds a sample series \<^verbatim>\<open>data\<close>, the helper \<^verbatim>\<open>sum_by_index\<close> and the
  routine \<^verbatim>\<open>analyze_points\<close>. A point is a Python dictionary with one entry, from the
  home identifier to the list \<^verbatim>\<open>[volts, ampers, power, resistance, ...]\<close> of floats.

  Numbers are modelled as CPython has them: a float is an IEEE 754 binary64 value, and
  the literal \<^verbatim>\<open>0\<close> is an int. Subtraction, addition, multiplication and division
  round to nearest, ties to even; they never raise on overflow (the result is an
  infinity), and only division raises, on a zero divisor. The power \<^verbatim>\<open>x ** 2\<close> goes
  through the C library's \<^verbatim>\<open>pow\<close>, which is not correctly rounded: it returns one of
  the two doubles that enclose the exact square, and which one is the platform's
  choice, a parameter \<open>libm\<close> of the model. An infinite result of \<^verbatim>\<open>pow\<close> on a finite
  argument raises \<^verbatim>\<open>OverflowError\<close>. The built-in \<^verbatim>\<open>sum\<close> is the one of CPython up to
  3.11: it adds from the left, one rounded addition per element.
\<close>

subsection \<open>Data\<close>

text \<open>The exceptions the routine can raise: an out-of-range subscript, \<^verbatim>\<open>max\<close> of an
  empty list, a zero divisor, an overflowing power or conversion.\<close>

datatype py_error = IndexError | ValueError | ZeroDivisionError | OverflowError

text \<open>A binary64 value: \<open>Finite s m e\<close> is \<open>(-1)^s * m * 2^e\<close>, \<open>Infinity s\<close> is the
  infinity of sign \<open>s\<close>. The doubles are the values that \<open>is_double\<close> accepts: a
  subnormal (or a zero) has \<open>m < 2^52\<close> and \<open>e = -1074\<close>, a normal number has
  \<open>2^52 \<le> m < 2^53\<close> and \<open>-1074 \<le> e \<le> 971\<close>.\<close>

datatype pyfloat = Finite bool int int | Infinity bool | NaN

definition is_double :: "pyfloat \<Rightarrow> bool" where
  "is_double x =
     (case x of
        Finite s m e \<Rightarrow>
          (0 \<le> m \<and> m < 2 ^ 52 \<and> e = - 1074)
          \<or> (2 ^ 52 \<le> m \<and> m < 2 ^ 53 \<and> - 1074 \<le> e \<and> e \<le> 971)
      | Infinity s \<Rightarrow> True
      | NaN \<Rightarrow> True)"

text \<open>A Python number: an int or a float.\<close>

datatype pynum = PyInt int | PyFloat pyfloat

text \<open>A dictionary keeps its entries in insertion order and the code reads the first
  one, so a point is the list of its items.\<close>

type_synonym point = "(int \<times> pyfloat list) list"

text \<open>The dictionary \<^verbatim>\<open>{"delta": delta, "home_id": home_id}\<close>.\<close>

record delta_result =
  delta :: pynum
  home_id :: int

text \<open>What a call can touch: the module's global \<^verbatim>\<open>data\<close>, the list object passed as
  \<^verbatim>\<open>points\<close> (shared with the caller), and the local list \<^verbatim>\<open>deltas\<close>.\<close>

record env =
  g_data :: "point list"
  a_points :: "point list"
  l_deltas :: "delta_result list"

subsection \<open>Rounding to binary64\<close>

text \<open>The number of binary digits of \<open>n \<ge> 0\<close>.\<close>

function bits :: "int \<Rightarrow> nat" where
  "bits n = (if n \<le> 0 then 0 else Suc (bits (n div 2)))"
  by pat_completeness auto
termination
  by (relation "measure nat") auto

declare bits.simps [simp del]

text \<open>Rounding \<open>M * 2^E\<close> (\<open>M \<ge> 0\<close>) to a double of sign \<open>s\<close>. The unit of the result is \<open>2^t\<close>;
  when digits are cut off, \<open>q\<close> is the quotient, \<open>r\<close> the remainder and \<open>half\<close> half
  the unit, and \<open>up q r half\<close> says whether the quotient is incremented. A result
  beyond the largest double is an infinity.\<close>

definition round_with :: "(int \<Rightarrow> int \<Rightarrow> int \<Rightarrow> bool) \<Rightarrow> bool \<Rightarrow> int \<Rightarrow> int \<Rightarrow> pyfloat" where
  "round_with up s M E =
     (if M \<le> 0 then Finite s 0 (- 1074)
      else
        let e = int (bits M) - 1 + E;
            t = max (e - 52) (- 1074)
        in if 1023 < e then Infinity s
           else if t \<le> E then Finite s (M * 2 ^ nat (E - t)) t
           else
             let k = nat (t - E);
                 q = M div 2 ^ k;
                 r = M mod 2 ^ k;
                 half = 2 ^ (k - 1);
                 n = (if up q r half then q + 1 else q)
             in if n = 2 ^ 53
                then (if 971 \<le> t then Infinity s else Finite s (2 ^ 52) (t + 1))
                else Finite s n t)"

text \<open>Round to nearest, ties to even.\<close>

definition nearest_even :: "int \<Rightarrow> int \<Rightarrow> int \<Rightarrow> bool" where
  "nearest_even q r half = (half < r \<or> (r = half \<and> odd q))"

definition round_dyadic :: "bool \<Rightarrow> int \<Rightarrow> int \<Rightarrow> pyfloat" where
  "round_dyadic s M E = round_with nearest_even s M E"

text \<open>Rounding \<open>P / Q * 2^E\<close> (\<open>P \<ge> 0\<close>, \<open>Q > 0\<close>): the quotient is taken with at least 55 digits
  and one more digit records whether the division left a remainder.\<close>

definition round_quot :: "bool \<Rightarrow> int \<Rightarrow> int \<Rightarrow> int \<Rightarrow> pyfloat" where
  "round_quot s P Q E =
     (let K = bits Q + 55;
          q = (P * 2 ^ K) div Q;
          r = (P * 2 ^ K) mod Q
      in round_dyadic s (2 * q + (if r = 0 then 0 else 1)) (E - int K - 1))"

text \<open>The double \<open>m * 2^e\<close>, which is \<^verbatim>\<open>math.ldexp(float(m), e)\<close> for \<open>\<bar>m\<bar> < 2^53\<close>.\<close>

definition mk :: "int \<Rightarrow> int \<Rightarrow> pyfloat" where
  "mk m e = round_dyadic (m < 0) \<bar>m\<bar> e"

subsection \<open>Float arithmetic\<close>

definition signed :: "bool \<Rightarrow> int \<Rightarrow> int" where
  "signed s m = (if s then - m else m)"

text \<open>\<^verbatim>\<open>a + b\<close> on floats. A zero operand leaves the other operand as it is; an exact
  zero sum is \<open>-0.0\<close> only when both operands are negative.\<close>

definition fl_add :: "pyfloat \<Rightarrow> pyfloat \<Rightarrow> pyfloat" where
  "fl_add a b =
     (case (a, b) of
        (NaN, _) \<Rightarrow> NaN
      | (_, NaN) \<Rightarrow> NaN
      | (Infinity s, Infinity s') \<Rightarrow> (if s = s' then Infinity s else NaN)
      | (Infinity s, Finite _ _ _) \<Rightarrow> Infinity s
      | (Finite _ _ _, Infinity s') \<Rightarrow> Infinity s'
      | (Finite sa ma ea, Finite sb mb eb) \<Rightarrow>
          (if ma = 0 \<and> mb = 0 then Finite (sa \<and> sb) 0 (- 1074)
           else if ma = 0 then Finite sb mb eb
           else if mb = 0 then Finite sa ma ea
           else
             let e0 = min ea eb;
                 v = signed sa (ma * 2 ^ nat (ea - e0)) + signed sb (mb * 2 ^ nat (eb - e0))
             in if v = 0 then Finite False 0 (- 1074)
                else round_dyadic (v < 0) \<bar>v\<bar> e0))"

definition fl_neg :: "pyfloat \<Rightarrow> pyfloat" where
  "fl_neg a =
     (case a of Finite s m e \<Rightarrow> Finite (\<not> s) m e | Infinity s \<Rightarrow> Infinity (\<not> s) | NaN \<Rightarrow> NaN)"

text \<open>\<^verbatim>\<open>a - b\<close> on floats.\<close>

definition fl_sub :: "pyfloat \<Rightarrow> pyfloat \<Rightarrow> pyfloat" where
  "fl_sub a b = fl_add a (fl_neg b)"

text \<open>\<^verbatim>\<open>a * b\<close> on floats.\<close>

definition fl_mul :: "pyfloat \<Rightarrow> pyfloat \<Rightarrow> pyfloat" where
  "fl_mul a b =
     (case (a, b) of
        (NaN, _) \<Rightarrow> NaN
      | (_, NaN) \<Rightarrow> NaN
      | (Infinity s, Infinity s') \<Rightarrow> Infinity (s \<noteq> s')
      | (Infinity s, Finite s' m _) \<Rightarrow> (if m = 0 then NaN else Infinity (s \<noteq> s'))
      | (Finite s m _, Infinity s') \<Rightarrow> (if m = 0 then NaN else Infinity (s \<noteq> s'))
      | (Finite sa ma ea, Finite sb mb eb) \<Rightarrow> round_dyadic (sa \<noteq> sb) (ma * mb) (ea + eb))"

text \<open>The IEEE quotient; Python reaches it only with a divisor that is not zero.\<close>

definition fl_div :: "pyfloat \<Rightarrow> pyfloat \<Rightarrow> pyfloat" where
  "fl_div a b =
     (case (a, b) of
        (NaN, _) \<Rightarrow> NaN
      | (_, NaN) \<Rightarrow> NaN
      | (Infinity s, Infinity s') \<Rightarrow> NaN
      | (Infinity s, Finite s' _ _) \<Rightarrow> Infinity (s \<noteq> s')
      | (Finite s _ _, Infinity s') \<Rightarrow> Finite (s \<noteq> s') 0 (- 1074)
      | (Finite sa ma ea, Finite sb mb eb) \<Rightarrow>
          (if mb = 0 then (if ma = 0 then NaN else Infinity (sa \<noteq> sb))
           else if ma = 0 then Finite (sa \<noteq> sb) 0 (- 1074)
           else round_quot (sa \<noteq> sb) ma mb (ea - eb)))"

text \<open>\<^verbatim>\<open>x == 0\<close> for a float; a NaN is not equal to anything.\<close>

definition fl_eq0 :: "pyfloat \<Rightarrow> bool" where
  "fl_eq0 x = (case x of Finite s m e \<Rightarrow> m = 0 | Infinity s \<Rightarrow> False | NaN \<Rightarrow> False)"

text \<open>\<^verbatim>\<open>a / b\<close> on floats.\<close>

definition fl_truediv :: "pyfloat \<Rightarrow> pyfloat \<Rightarrow> py_error + pyfloat" where
  "fl_truediv a b = (if fl_eq0 b then Inl ZeroDivisionError else Inr (fl_div a b))"

text \<open>\<^verbatim>\<open>x ** 2\<close> on a float. CPython answers for a NaN and an infinity itself and
  hands a finite \<open>x\<close> to \<^verbatim>\<open>pow\<close>; \<open>libm x\<close> says whether \<^verbatim>\<open>pow\<close> returns the upper of the
  two doubles around an inexact square.\<close>

definition fl_pow2 :: "(pyfloat \<Rightarrow> bool) \<Rightarrow> pyfloat \<Rightarrow> py_error + pyfloat" where
  "fl_pow2 libm x =
     (case x of
        NaN \<Rightarrow> Inr NaN
      | Infinity s \<Rightarrow> Inr (Infinity False)
      | Finite s m e \<Rightarrow>
          (case round_with (\<lambda>q r half. r \<noteq> 0 \<and> libm x) False (m * m) (e + e) of
             Infinity s' \<Rightarrow> Inl OverflowError
           | Finite s' m' e' \<Rightarrow> Inr (Finite s' m' e')
           | NaN \<Rightarrow> Inr NaN))"

text \<open>A \<^verbatim>\<open>pow\<close> that always returns the nearer double (the upper one at a tie is
  taken when the lower is odd).\<close>

definition libm_nearest :: "pyfloat \<Rightarrow> bool" where
  "libm_nearest x =
     (case x of
        Finite s m e \<Rightarrow>
          round_with (\<lambda>q r half. r \<noteq> 0) False (m * m) (e + e)
            = round_dyadic False (m * m) (e + e)
      | Infinity s \<Rightarrow> False
      | NaN \<Rightarrow> False)"

subsection \<open>Arithmetic on numbers\<close>

definition bnd :: "py_error + 'a \<Rightarrow> ('a \<Rightarrow> py_error + 'b) \<Rightarrow> py_error + 'b" where
  "bnd m f = (case m of Inl e \<Rightarrow> Inl e | Inr x \<Rightarrow> f x)"

text \<open>\<^verbatim>\<open>float(n)\<close>, the conversion of an int operand that meets a float.\<close>

definition int_to_float :: "int \<Rightarrow> py_error + pyfloat" where
  "int_to_float n =
     (case round_dyadic (n < 0) \<bar>n\<bar> 0 of
        Infinity s \<Rightarrow> Inl OverflowError
      | Finite s m e \<Rightarrow> Inr (Finite s m e)
      | NaN \<Rightarrow> Inr NaN)"

text \<open>\<^verbatim>\<open>a / b\<close> on two ints: the correctly rounded quotient.\<close>

definition int_truediv :: "int \<Rightarrow> int \<Rightarrow> py_error + pyfloat" where
  "int_truediv a b =
     (if b = 0 then Inl ZeroDivisionError
      else if a = 0 then Inr (Finite ((a < 0) \<noteq> (b < 0)) 0 (- 1074))
      else (case round_quot ((a < 0) \<noteq> (b < 0)) \<bar>a\<bar> \<bar>b\<bar> 0 of
              Infinity s \<Rightarrow> Inl OverflowError
            | Finite s m e \<Rightarrow> Inr (Finite s m e)
            | NaN \<Rightarrow> Inr NaN))"

text \<open>\<^verbatim>\<open>a + b\<close>.\<close>

definition py_add :: "pynum \<Rightarrow> pynum \<Rightarrow> py_error + pynum" where
  "py_add a b =
     (case (a, b) of
        (PyInt m, PyInt n) \<Rightarrow> Inr (PyInt (m + n))
      | (PyInt m, PyFloat y) \<Rightarrow> bnd (int_to_float m) (\<lambda>x. Inr (PyFloat (fl_add x y)))
      | (PyFloat x, PyInt n) \<Rightarrow> bnd (int_to_float n) (\<lambda>y. Inr (PyFloat (fl_add x y)))
      | (PyFloat x, PyFloat y) \<Rightarrow> Inr (PyFloat (fl_add x y)))"

text \<open>\<^verbatim>\<open>a * b\<close>.\<close>

definition py_mul :: "pynum \<Rightarrow> pynum \<Rightarrow> py_error + pynum" where
  "py_mul a b =
     (case (a, b) of
        (PyInt m, PyInt n) \<Rightarrow> Inr (PyInt (m * n))
      | (PyInt m, PyFloat y) \<Rightarrow> bnd (int_to_float m) (\<lambda>x. Inr (PyFloat (fl_mul x y)))
      | (PyFloat x, PyInt n) \<Rightarrow> bnd (int_to_float n) (\<lambda>y. Inr (PyFloat (fl_mul x y)))
      | (PyFloat x, PyFloat y) \<Rightarrow> Inr (PyFloat (fl_mul x y)))"

text \<open>\<^verbatim>\<open>a / b\<close>.\<close>

definition py_truediv :: "pynum \<Rightarrow> pynum \<Rightarrow> py_error + pynum" where
  "py_truediv a b =
     (case (a, b) of
        (PyInt m, PyInt n) \<Rightarrow> bnd (int_truediv m n) (\<lambda>z. Inr (PyFloat z))
      | (PyInt m, PyFloat y) \<Rightarrow>
          bnd (int_to_float m) (\<lambda>x. bnd (fl_truediv x y) (\<lambda>z. Inr (PyFloat z)))
      | (PyFloat x, PyInt n) \<Rightarrow>
          bnd (int_to_float n) (\<lambda>y. bnd (fl_truediv x y) (\<lambda>z. Inr (PyFloat z)))
      | (PyFloat x, PyFloat y) \<Rightarrow> bnd (fl_truediv x y) (\<lambda>z. Inr (PyFloat z)))"

text \<open>\<^verbatim>\<open>a ** 2\<close>.\<close>

definition py_pow2 :: "(pyfloat \<Rightarrow> bool) \<Rightarrow> pynum \<Rightarrow> py_error + pynum" where
  "py_pow2 libm a =
     (case a of
        PyInt n \<Rightarrow> Inr (PyInt (n * n))
      | PyFloat x \<Rightarrow> bnd (fl_pow2 libm x) (\<lambda>z. Inr (PyFloat z)))"

text \<open>\<^verbatim>\<open>a == 0\<close>.\<close>

definition py_eq0 :: "pynum \<Rightarrow> bool" where
  "py_eq0 a = (case a of PyInt n \<Rightarrow> n = 0 | PyFloat x \<Rightarrow> fl_eq0 x)"

definition py_isnan :: "pynum \<Rightarrow> bool" where
  "py_isnan a = (case a of PyInt n \<Rightarrow> False | PyFloat x \<Rightarrow> x = NaN)"

text \<open>The place of a number that is not a NaN in the order of the numbers: the
  infinities lie below and above everything else, and the rest is compared by value,
  in units of \<open>2^-1074\<close>.\<close>

definition rank :: "pynum \<Rightarrow> int \<times> int" where
  "rank a =
     (case a of
        PyInt n \<Rightarrow> (0, n * 2 ^ 1074)
      | PyFloat (Finite s m e) \<Rightarrow> (0, signed s (m * 2 ^ nat (e + 1074)))
      | PyFloat (Infinity s) \<Rightarrow> (if s then - 1 else 1, 0)
      | PyFloat NaN \<Rightarrow> (0, 0))"

text \<open>\<^verbatim>\<open>a > b\<close> and \<^verbatim>\<open>a <= b\<close>; every comparison with a NaN is false.\<close>

definition py_gt :: "pynum \<Rightarrow> pynum \<Rightarrow> bool" where
  "py_gt a b = (\<not> py_isnan a \<and> \<not> py_isnan b \<and> rank b < rank a)"


subsection \<open>Python primitives\<close>

text \<open>\<^verbatim>\<open>xs[k]\<close> for a subscript \<open>k \<ge> 0\<close>.\<close>

definition get_idx :: "'a list \<Rightarrow> nat \<Rightarrow> py_error + 'a" where
  "get_idx xs k = (if k < length xs then Inr (xs ! k) else Inl IndexError)"

text \<open>\<^verbatim>\<open>list(d.items())[0]\<close>; \<^verbatim>\<open>list(d.values())[0]\<close> is its second component.\<close>

definition first_item :: "point \<Rightarrow> py_error + (int \<times> pyfloat list)" where
  "first_item d = (case d of [] \<Rightarrow> Inl IndexError | kv # _ \<Rightarrow> Inr kv)"

text \<open>\<^verbatim>\<open>range(lo, hi)\<close> for \<open>lo \<ge> 0\<close>; a bound \<open>hi \<le> lo\<close> (also a negative one)
  gives the empty range.\<close>

definition py_range :: "nat \<Rightarrow> int \<Rightarrow> nat list" where
  "py_range lo hi = [lo ..< nat hi]"

text \<open>\<^verbatim>\<open>max(xs, key=lambda x: x["delta"])\<close>: the scan keeps the item it holds unless
  the next key is greater; an empty list raises.\<close>

fun max_scan :: "delta_result \<Rightarrow> delta_result list \<Rightarrow> delta_result" where
  "max_scan maxitem [] = maxitem"
| "max_scan maxitem (x # xs) =
     max_scan (if py_gt (delta x) (delta maxitem) then x else maxitem) xs"

definition py_max :: "delta_result list \<Rightarrow> py_error + delta_result" where
  "py_max xs = (case xs of [] \<Rightarrow> Inl ValueError | x # rest \<Rightarrow> Inr (max_scan x rest))"

subsection \<open>\<^verbatim>\<open>sum_by_index\<close>\<close>

text \<open>\<^verbatim>\<open>sum(list(d.values())[0][index] for d in data)\<close>: the built-in starts at the
  int 0 and adds from the left; the first bad element raises.\<close>

fun sum_from :: "pynum \<Rightarrow> point list \<Rightarrow> nat \<Rightarrow> py_error + pynum" where
  "sum_from acc [] index = Inr acc"
| "sum_from acc (d # ds) index =
     bnd (first_item d) (\<lambda>kv.
     bnd (get_idx (snd kv) index) (\<lambda>x.
     bnd (py_add acc (PyFloat x)) (\<lambda>acc'.
     sum_from acc' ds index)))"

definition sum_by_index :: "point list \<Rightarrow> nat \<Rightarrow> py_error + pynum" where
  "sum_by_index data index = sum_from (PyInt 0) data index"

subsection \<open>\<^verbatim>\<open>analyze_points\<close>\<close>

text \<open>The body of the loop for one index \<open>i\<close>, up to the dictionary it appends.\<close>

definition loop_body :: "(pyfloat \<Rightarrow> bool) \<Rightarrow> point list \<Rightarrow> nat \<Rightarrow> py_error + delta_result" where
  "loop_body libm points i =
     bnd (get_idx points i) (\<lambda>current.
     bnd (get_idx points (i + 1)) (\<lambda>next_home.
     bnd (first_item current) (\<lambda>current_item.
     bnd (first_item next_home) (\<lambda>next_item.
     bnd (get_idx (snd current_item) 0) (\<lambda>current_volts.
     bnd (get_idx (snd current_item) 3) (\<lambda>current_resistance.
     bnd (get_idx (snd next_item) 0) (\<lambda>next_volts.
     bnd (fl_pow2 libm (fl_sub current_volts next_volts)) (\<lambda>volt_diff.
     bnd (if \<not> fl_eq0 current_resistance
          then bnd (fl_truediv volt_diff current_resistance) (\<lambda>z. Inr (PyFloat z))
          else Inr (PyInt 0)) (\<lambda>volt_power.
     let future_points = drop (i + 2) points in
     bnd (sum_by_index future_points 1) (\<lambda>future_ampers_sum.
     bnd (if py_eq0 future_ampers_sum \<or> fl_eq0 current_resistance
          then Inr (PyInt 0)
          else bnd (py_pow2 libm future_ampers_sum) (\<lambda>sq.
               bnd (py_mul sq (PyFloat current_resistance)) (\<lambda>amper_power.
               py_truediv volt_power amper_power))) (\<lambda>dl.
     Inr \<lparr>delta = dl, home_id = fst current_item\<rparr>)))))))))))"

text \<open>The \<^verbatim>\<open>for\<close> loop: each round appends to \<^verbatim>\<open>deltas\<close>; an exception leaves the
  loop with the state reached so far.\<close>

fun for_loop :: "(pyfloat \<Rightarrow> bool) \<Rightarrow> nat list \<Rightarrow> env \<Rightarrow> (py_error + unit) \<times> env" where
  "for_loop libm [] s = (Inr (), s)"
| "for_loop libm (i # is) s =
     (case loop_body libm (a_points s) i of
        Inl e \<Rightarrow> (Inl e, s)
      | Inr d \<Rightarrow> for_loop libm is (s\<lparr>l_deltas := l_deltas s @ [d]\<rparr>))"

definition analyze_points :: "(pyfloat \<Rightarrow> bool) \<Rightarrow> env \<Rightarrow> (py_error + delta_result) \<times> env" where
  "analyze_points libm s0 =
     (let s1 = s0\<lparr>l_deltas := []\<rparr> in
      case for_loop libm (py_range 1 (int (length (a_points s1)) - 1)) s1 of
        (Inl e, s2) \<Rightarrow> (Inl e, s2)
      | (Inr u, s2) \<Rightarrow> (py_max (l_deltas s2), s2))"

text \<open>A call \<^verbatim>\<open>analyze_points(points)\<close> made while the module's global holds \<open>g\<close>:
  the value it returns or the exception it raises.\<close>

definition call_analyze ::
    "(pyfloat \<Rightarrow> bool) \<Rightarrow> point list \<Rightarrow> point list \<Rightarrow> py_error + delta_result" where
  "call_analyze libm g points =
     fst (analyze_points libm \<lparr>g_data = g, a_points = points, l_deltas = []\<rparr>)"

subsection \<open>The contract of the analyzer, in the specification's words\<close>

text \<open>A point record carries an identifier and at least the four measurements, each
  of them a double.\<close>

definition valid_point :: "point \<Rightarrow> bool" where
  "valid_point p =
     (case p of [] \<Rightarrow> False | kv # _ \<Rightarrow> 4 \<le> length (snd kv) \<and> list_all is_double (snd kv))"

text \<open>The fields of a point record.\<close>

definition identifier_of :: "point \<Rightarrow> int" where
  "identifier_of p = fst (hd p)"

definition volts_of :: "point \<Rightarrow> pyfloat" where
  "volts_of p = snd (hd p) ! 0"

definition ampers_of :: "point \<Rightarrow> pyfloat" where
  "ampers_of p = snd (hd p) ! 1"

definition resistance_of :: "point \<Rightarrow> pyfloat" where
  "resistance_of p = snd (hd p) ! 3"

text \<open>The sum of a list of floats as the built-in computes it: the int 0 for no
  element, else the additions from the left, the first of them to \<open>0.0\<close>.\<close>

definition float_sum :: "pyfloat list \<Rightarrow> pynum" where
  "float_sum xs =
     (case xs of
        [] \<Rightarrow> PyInt 0
      | x # rest \<Rightarrow> PyFloat (foldl fl_add (fl_add (Finite False 0 (- 1074)) x) rest))"

text \<open>The summed current of all points strictly after index \<open>i + 1\<close>.\<close>

definition future_ampers :: "point list \<Rightarrow> nat \<Rightarrow> pynum" where
  "future_ampers points i = float_sum (map ampers_of (drop (i + 2) points))"

text \<open>The squared voltage difference \<open>(V_i - V_{i+1})^2\<close> of candidate \<open>i\<close>.\<close>

definition volt_diff_sq :: "(pyfloat \<Rightarrow> bool) \<Rightarrow> point list \<Rightarrow> nat \<Rightarrow> py_error + pyfloat" where
  "volt_diff_sq libm points i =
     fl_pow2 libm (fl_sub (volts_of (points ! i)) (volts_of (points ! (i + 1))))"

text \<open>The delta of candidate \<open>i\<close>: 0 when \<open>S = 0\<close> or \<open>R_i = 0\<close>, and else the ratio of
  \<open>volt_power = (V_i - V_{i+1})^2 / R_i\<close> to \<open>amper_power = S^2 * R_i\<close>, every
  operation in Python's arithmetic.\<close>

definition spec_delta :: "(pyfloat \<Rightarrow> bool) \<Rightarrow> point list \<Rightarrow> nat \<Rightarrow> py_error + pynum" where
  "spec_delta libm points i =
     (let V_i = volts_of (points ! i);
          R_i = resistance_of (points ! i);
          V_next = volts_of (points ! (i + 1));
          S = future_ampers points i
      in if py_eq0 S \<or> fl_eq0 R_i then Inr (PyInt 0)
         else bnd (fl_pow2 libm (fl_sub V_i V_next)) (\<lambda>vd.
              bnd (fl_truediv vd R_i) (\<lambda>volt_power.
              bnd (py_pow2 libm S) (\<lambda>sq.
              bnd (py_mul sq (PyFloat R_i)) (\<lambda>amper_power.
              py_truediv (PyFloat volt_power) amper_power)))))"

text \<open>A NaN, or a number whose sign bit is \<open>s\<close>.\<close>

definition signed_as :: "bool \<Rightarrow> pyfloat \<Rightarrow> bool" where
  "signed_as s x =
     (case x of Finite s' m e \<Rightarrow> s' = s \<and> 0 \<le> m | Infinity s' \<Rightarrow> s' = s | NaN \<Rightarrow> True)"


subsection \<open>Sample series\<close>

text \<open>Every measurement of the samples is a double \<open>mk m e\<close>, that is \<open>m * 2^e\<close>. Two
  and three ordinary points; five points whose largest delta is at index 2; six
  points where indices 2 and 3 tie; a candidate of resistance 0; a candidate of
  negative resistance.\<close>

definition sample2 :: "point list" where
  "sample2 = [[(1, [mk 230 0, mk 84 0, mk 19002 0, mk 0 0])],
              [(2, [mk 228 0, mk 7 0, mk 1635 0, mk 1 0])]]"

definition sample3 :: "point list" where
  "sample3 = [[(1, [mk 230 0, mk 84 0, mk 19002 0, mk 0 0])],
              [(2, [mk 228 0, mk 7 0, mk 1635 0, mk 1 0])],
              [(3, [mk 226 0, mk 6 0, mk 1635 0, mk 1 0])]]"

definition sample5 :: "point list" where
  "sample5 = [[(1, [mk 230 0, mk 84 0, mk 19002 0, mk 0 0])],
              [(2, [mk 228 0, mk 7 0, mk 1635 0, mk 1 0])],
              [(3, [mk 226 0, mk 6 0, mk 1635 0, mk 1 0])],
              [(4, [mk 225 0, mk 3 0, mk 827 0, mk 1 0])],
              [(5, [mk 224 0, mk 2 0, mk 500 0, mk 1 0])]]"





definition sample_under :: "point list" where
  "sample_under = [[(1, [mk 230 0, mk 84 0, mk 19002 0, mk 0 0])],
                   [(2, [mk 228 0, mk 7 0, mk 1635 0, mk 1 (- 200)])],
                   [(3, [mk 226 0, mk 6 0, mk 1635 0, mk 1 0])],
                   [(4, [mk 225 0, mk 1 (- 500), mk 827 0, mk 1 0])]]"



definition sample3_over :: "point list" where
  "sample3_over = [[(1, [mk 230 0, mk 84 0, mk 19002 0, mk 0 0])],
                   [(2, [mk 1 600, mk 7 0, mk 1635 0, mk 1 0])],
                   [(3, [mk 226 0, mk 6 0, mk 1635 0, mk 1 0])]]"

definition sample_last_over :: "point list" where
  "sample_last_over = [[(1, [mk 230 0, mk 84 0, mk 19002 0, mk 0 0])],
                       [(2, [mk 228 0, mk 7 0, mk 1635 0, mk 1 0])],
                       [(3, [mk 1 600, mk 6 0, mk 1635 0, mk 1 0])],
                       [(4, [mk 0 0, mk 3 0, mk 827 0, mk 1 0])]]"



text \<open>Two states of the module around the same argument.\<close>

definition env_fresh :: env where
  "env_fresh = \<lparr>g_data = [], a_points = sample3, l_deltas = []\<rparr>"

definition env_used :: env where
  "env_used = \<lparr>g_data = sample5, a_points = sample3,
                l_deltas = [\<lparr>delta = PyInt 7, home_id = 9\<rparr>]\<rparr>"



section \<open>The loop on well-formed input\<close>

lemma bnd_simps [simp]: "bnd (Inr x) f = f x" "bnd (Inl e) f = Inl e"
  by (simp_all add: bnd_def)


lemma first_item_valid: "valid_point p \<Longrightarrow> first_item p = Inr (hd p)"
  by (cases p) (simp_all add: valid_point_def first_item_def)

lemma valid_length: "valid_point p \<Longrightarrow> 4 \<le> length (snd (hd p))"
  by (cases p) (simp_all add: valid_point_def)


lemma int_to_float_0: "int_to_float 0 = Inr (Finite False 0 (- 1074))"
  by (simp add: int_to_float_def round_dyadic_def round_with_def)

lemma sum_from_float:
  "list_all valid_point ds \<Longrightarrow>
   sum_from (PyFloat a) ds (Suc 0) = Inr (PyFloat (foldl fl_add a (map ampers_of ds)))"
proof (induction ds arbitrary: a)
  case Nil
  then show ?case by simp
next
  case (Cons d ds)
  from Cons.prems have v: "valid_point d" and r: "list_all valid_point ds" by simp_all
  from valid_length [OF v] have "Suc 0 < length (snd (hd d))" by simp
  then show ?case
    using Cons.IH [OF r] first_item_valid [OF v]
    by (simp add: get_idx_def ampers_of_def py_add_def)
qed

lemma sum_by_index_valid:
  assumes "list_all valid_point ds"
  shows "sum_by_index ds (Suc 0) = Inr (float_sum (map ampers_of ds))"
proof (cases ds)
  case Nil
  then show ?thesis by (simp add: sum_by_index_def float_sum_def)
next
  case (Cons d ds')
  from assms Cons have v: "valid_point d" and r: "list_all valid_point ds'" by simp_all
  from valid_length [OF v] have "Suc 0 < length (snd (hd d))" by simp
  then show ?thesis
    using sum_from_float [OF r] first_item_valid [OF v] Cons
    by (simp add: sum_by_index_def float_sum_def get_idx_def ampers_of_def py_add_def
        int_to_float_0)
qed

lemma list_all_drop: "list_all P xs \<Longrightarrow> list_all P (drop n xs)"
  by (auto simp: list_all_iff dest: in_set_dropD)

lemma future_ampers_valid:
  "list_all valid_point points \<Longrightarrow>
   sum_by_index (drop (i + 2) points) (Suc 0) = Inr (future_ampers points i)"
  unfolding future_ampers_def by (rule sum_by_index_valid) (rule list_all_drop)

text \<open>On well-formed input a round is the squaring of the voltage difference, which
  may raise, followed by the specified delta.\<close>

lemma loop_body_valid:
  assumes "list_all valid_point points" and "i + 1 < length points"
  shows "loop_body libm points i =
    bnd (volt_diff_sq libm points i) (\<lambda>vd.
    bnd (spec_delta libm points i) (\<lambda>dl.
    Inr \<lparr>delta = dl, home_id = identifier_of (points ! i)\<rparr>))"
proof -
  have vi: "valid_point (points ! i)" and vn: "valid_point (points ! (i + 1))"
    using assms by (simp_all add: list_all_length)
  have li: "snd (hd (points ! i)) \<noteq> []" "3 < length (snd (hd (points ! i)))"
    and ln: "snd (hd (points ! (i + 1))) \<noteq> []"
    using valid_length [OF vi] valid_length [OF vn] by auto
  note s = future_ampers_valid [OF assms(1), of i]
  show ?thesis
  proof (cases "volt_diff_sq libm points i")
    case (Inl e)
    then show ?thesis
      using assms(2) li ln first_item_valid [OF vi] first_item_valid [OF vn]
      by (simp add: loop_body_def get_idx_def volt_diff_sq_def volts_of_def)
  next
    case (Inr vd)
    then show ?thesis
      using assms(2) li ln s first_item_valid [OF vi] first_item_valid [OF vn]
      by (simp add: loop_body_def get_idx_def volt_diff_sq_def volts_of_def spec_delta_def
          resistance_of_def identifier_of_def fl_truediv_def Let_def)
  qed
qed




text \<open>A round that raises ends the call with its exception.\<close>

lemma for_loop_raises:
  "j \<in> set js \<Longrightarrow> loop_body libm (a_points s) j = Inl e \<Longrightarrow>
   \<exists>e'. fst (for_loop libm js s) = Inl e'"
proof (induction js arbitrary: s)
  case Nil
  then show ?case by simp
next
  case (Cons k js)
  show ?case
  proof (cases "loop_body libm (a_points s) k")
    case (Inl e0)
    then show ?thesis by simp
  next
    case (Inr d)
    with Cons.prems have "j \<in> set js" by auto
    then have "\<exists>e'. fst (for_loop libm js (s\<lparr>l_deltas := l_deltas s @ [d]\<rparr>)) = Inl e'"
      using Cons.prems(2) by (intro Cons.IH) simp_all
    then show ?thesis using Inr by simp
  qed
qed


subsection \<open>The maximum scan\<close>



subsection \<open>Signs\<close>

lemma signed_as_round_with: "signed_as s (round_with up s M E)"
  by (auto simp: round_with_def signed_as_def Let_def pos_imp_zdiv_nonneg_iff)

lemma signed_as_round_dyadic: "signed_as s (round_dyadic s M E)"
  unfolding round_dyadic_def by (rule signed_as_round_with)





lemma signed_as_int_to_float: "int_to_float n = Inr r \<Longrightarrow> signed_as (n < 0) r"
  using signed_as_round_dyadic [of "n < 0" "\<bar>n\<bar>" 0]
  by (auto simp: int_to_float_def signed_as_def split: pyfloat.splits)


lemma fl_pow2_error: "fl_pow2 libm x = Inl e \<Longrightarrow> e = OverflowError"
  by (cases x) (auto simp: fl_pow2_def split: pyfloat.splits)



subsection \<open>The maximum over the candidates\<close>




subsection \<open>The delta of a round\<close>

lemma spec_delta_guarded:
  "py_eq0 (future_ampers points i) \<or> fl_eq0 (resistance_of (points ! i)) \<Longrightarrow>
   spec_delta libm points i = Inr (PyInt 0)"
  by (simp add: spec_delta_def)





lemma volt_diff_sq_cases:
  "volt_diff_sq libm points i = Inl OverflowError \<or> (\<exists>v. volt_diff_sq libm points i = Inr v)"
  using fl_pow2_error unfolding volt_diff_sq_def
  by (cases "fl_pow2 libm (fl_sub (volts_of (points ! i)) (volts_of (points ! (i + 1))))") auto

lemma loop_body_guarded:
  assumes "list_all valid_point points" and "i + 1 < length points"
    and "py_eq0 (future_ampers points i) \<or> fl_eq0 (resistance_of (points ! i))"
  shows "loop_body libm points i =
    (if volt_diff_sq libm points i = Inl OverflowError then Inl OverflowError
     else Inr \<lparr>delta = PyInt 0, home_id = identifier_of (points ! i)\<rparr>)"
  using volt_diff_sq_cases [of libm points i] loop_body_valid [OF assms(1,2), of libm]
    spec_delta_guarded [OF assms(3), of libm]
  by auto

lemma future_ampers_last: "length points \<le> i + 2 \<Longrightarrow> future_ampers points i = PyInt 0"
  by (simp add: future_ampers_def float_sum_def)

subsection \<open>What the loop leaves alone and what it depends on\<close>

lemma for_loop_frame:
  "a_points (snd (for_loop libm js s)) = a_points s
     \<and> g_data (snd (for_loop libm js s)) = g_data s"
  by (induction js arbitrary: s) (auto split: sum.splits)

lemma for_loop_local:
  "a_points s = a_points t \<Longrightarrow> l_deltas s = l_deltas t \<Longrightarrow>
   fst (for_loop libm js s) = fst (for_loop libm js t)
     \<and> l_deltas (snd (for_loop libm js s)) = l_deltas (snd (for_loop libm js t))"
proof (induction js arbitrary: s t)
  case Nil
  then show ?case by simp
next
  case (Cons j js)
  show ?case
  proof (cases "loop_body libm (a_points t) j")
    case (Inl e)
    then show ?thesis using Cons.prems by simp
  next
    case (Inr d)
    have "fst (for_loop libm js (s\<lparr>l_deltas := l_deltas s @ [d]\<rparr>))
            = fst (for_loop libm js (t\<lparr>l_deltas := l_deltas t @ [d]\<rparr>))
        \<and> l_deltas (snd (for_loop libm js (s\<lparr>l_deltas := l_deltas s @ [d]\<rparr>)))
            = l_deltas (snd (for_loop libm js (t\<lparr>l_deltas := l_deltas t @ [d]\<rparr>)))"
      using Cons.prems by (intro Cons.IH) simp_all
    then show ?thesis using Inr Cons.prems by simp
  qed
qed

subsection \<open>A zero divisor behind the guard\<close>

text \<open>The guard of the division looks at the current sum and the resistance, not at
  their product: in \<open>sample_under\<close> neither is zero, \<open>amper_power\<close> rounds to zero and
  the division raises.\<close>

lemma amper_power_underflow:
  "list_all valid_point sample_under
   \<and> \<not> py_eq0 (future_ampers sample_under 1)
   \<and> \<not> fl_eq0 (resistance_of (sample_under ! 1))
   \<and> call_analyze libm_nearest [] sample_under = Inl ZeroDivisionError"
proof -
  have "list_all valid_point sample_under" by code_simp
  moreover have "\<not> py_eq0 (future_ampers sample_under 1)" by code_simp
  moreover have "\<not> fl_eq0 (resistance_of (sample_under ! 1))" by code_simp
  moreover have "call_analyze libm_nearest [] sample_under = Inl ZeroDivisionError"
    by code_simp
  ultimately show ?thesis by simp
qed

section \<open>The claims\<close>




text \<open>
  C2, as the code has it. For every sequence of fewer than three point records the
  loop runs no round, \<^verbatim>\<open>deltas\<close> stays empty and the call fails with the
  \<^verbatim>\<open>ValueError\<close> that \<^verbatim>\<open>max\<close> raises on an empty list. The code has no check of
  the length and no condition of its own for too little data.
\<close>

theorem analyze_points_short:
  assumes "length points < 3"
  shows "call_analyze libm g points = Inl ValueError"
proof -
  have "py_range 1 (int (length points) - 1) = []"
    using assms by (simp add: py_range_def)
  then show ?thesis
    by (simp add: call_analyze_def analyze_points_def py_max_def)
qed

theorem analyze_points_short_witness:
  "length sample2 < 3 \<and> call_analyze libm_nearest sample5 sample2 = Inl ValueError"
proof -
  have h: "length sample2 < 3" by (simp add: sample2_def)
  from h analyze_points_short [OF h, of libm_nearest sample5] show ?thesis by simp
qed

text \<open>
  C2, as the specification words it, fails: on two points the loop ends normally with
  no delta collected, and the exception of the call is the one of the maximum
  selection over the empty list.
\<close>

theorem insufficient_data_counterexample:
  "for_loop libm_nearest (py_range 1 (int (length sample2) - 1))
       \<lparr>g_data = [], a_points = sample2, l_deltas = []\<rparr>
     = (Inr (), \<lparr>g_data = [], a_points = sample2, l_deltas = []\<rparr>)
   \<and> py_max [] = Inl ValueError
   \<and> call_analyze libm_nearest [] sample2 = Inl ValueError"
  by (simp add: call_analyze_def analyze_points_def py_range_def py_max_def sample2_def)







text \<open>
  C5, as the code has it. With exactly three well-formed points the loop's range holds
  the single index 1, the specified delta of that candidate is 0, and the call is
  the round at index 1: it returns the identifier of the middle point with delta 0,
  unless the square of the voltage difference overflows, and then it raises
  \<^verbatim>\<open>OverflowError\<close>.
\<close>

theorem three_points_single_candidate:
  assumes "length points = 3" and "list_all valid_point points"
  shows "py_range 1 (int (length points) - 1) = [1]
    \<and> call_analyze libm g points = loop_body libm points 1
    \<and> spec_delta libm points 1 = Inr (PyInt 0)
    \<and> call_analyze libm g points =
        (if volt_diff_sq libm points 1 = Inl OverflowError then Inl OverflowError
         else Inr \<lparr>delta = PyInt 0, home_id = identifier_of (points ! 1)\<rparr>)"
proof -
  have r: "py_range 1 (int (length points) - 1) = [1]"
    using assms(1) by (simp add: py_range_def upt_conv_Cons)
  have c: "call_analyze libm g points = loop_body libm points 1"
    unfolding call_analyze_def analyze_points_def Let_def
    using r by (simp add: py_max_def split: sum.splits)
  have f: "py_eq0 (future_ampers points 1) \<or> fl_eq0 (resistance_of (points ! 1))"
    using assms(1) by (simp add: future_ampers_last py_eq0_def)
  have s: "spec_delta libm points 1 = Inr (PyInt 0)"
    using f by (rule spec_delta_guarded)
  have "1 + 1 < length points" using assms(1) by simp
  from loop_body_guarded [OF assms(2) this f, of libm] r c s show ?thesis by simp
qed

theorem three_points_single_candidate_witness:
  "length sample3 = 3 \<and> list_all valid_point sample3
   \<and> py_range 1 (int (length sample3) - 1) = [1]
   \<and> volt_diff_sq libm_nearest sample3 1 = Inr (mk 4 0)
   \<and> call_analyze libm_nearest [] sample3 = Inr \<lparr>delta = PyInt 0, home_id = 2\<rparr>"
proof -
  have h1: "length sample3 = 3" by (simp add: sample3_def)
  have h2: "list_all valid_point sample3" by code_simp
  have v: "volt_diff_sq libm_nearest sample3 1 = Inr (mk 4 0)" by code_simp
  have k: "identifier_of (sample3 ! 1) = 2" by code_simp
  note t = three_points_single_candidate [OF h1 h2, of libm_nearest "[]"]
  from t have r: "py_range 1 (int (length sample3) - 1) = [1]" by blast
  from t have "call_analyze libm_nearest [] sample3 =
        (if volt_diff_sq libm_nearest sample3 1 = Inl OverflowError then Inl OverflowError
         else Inr \<lparr>delta = PyInt 0, home_id = identifier_of (sample3 ! 1)\<rparr>)" by blast
  then have c: "call_analyze libm_nearest [] sample3 = Inr \<lparr>delta = PyInt 0, home_id = 2\<rparr>"
    using v k by simp
  show ?thesis by (intro conjI h1 h2 r v c)
qed

text \<open>
  C5, as the specification words it, fails: \<open>sample3_over\<close> has exactly three
  well-formed points, and the call returns no pair but raises \<^verbatim>\<open>OverflowError\<close>.
\<close>

theorem three_points_counterexample:
  "length sample3_over = 3 \<and> list_all valid_point sample3_over
   \<and> call_analyze libm_nearest [] sample3_over = Inl OverflowError"
proof -
  have "length sample3_over = 3" by (simp add: sample3_over_def)
  moreover have "list_all valid_point sample3_over" by code_simp
  moreover have "call_analyze libm_nearest [] sample3_over = Inl OverflowError" by code_simp
  ultimately show ?thesis by simp
qed




text \<open>
  C7. The value returned (or the exception raised) is a function of the argument
  alone: two calls on the same sequence agree, whatever the module's global and the
  previous contents of the local list are.
\<close>

theorem analyze_points_deterministic:
  assumes "a_points s = a_points t"
  shows "fst (analyze_points libm s) = fst (analyze_points libm t)"
proof -
  let ?js = "py_range 1 (int (length (a_points s)) - 1)"
  have "fst (for_loop libm ?js (s\<lparr>l_deltas := []\<rparr>))
          = fst (for_loop libm ?js (t\<lparr>l_deltas := []\<rparr>))
     \<and> l_deltas (snd (for_loop libm ?js (s\<lparr>l_deltas := []\<rparr>)))
        = l_deltas (snd (for_loop libm ?js (t\<lparr>l_deltas := []\<rparr>)))"
    using assms by (intro for_loop_local) simp_all
  then show ?thesis
    using assms unfolding analyze_points_def Let_def
    by (auto split: prod.splits sum.splits)
qed

theorem analyze_points_deterministic_witness:
  "a_points env_fresh = a_points env_used \<and> g_data env_fresh \<noteq> g_data env_used
   \<and> l_deltas env_fresh \<noteq> l_deltas env_used
   \<and> fst (analyze_points libm_nearest env_fresh) = Inr \<lparr>delta = PyInt 0, home_id = 2\<rparr>
   \<and> fst (analyze_points libm_nearest env_used) = Inr \<lparr>delta = PyInt 0, home_id = 2\<rparr>"
proof -
  have h: "a_points env_fresh = a_points env_used" by (simp add: env_fresh_def env_used_def)
  have g: "g_data env_fresh \<noteq> g_data env_used"
    by (simp add: env_fresh_def env_used_def sample5_def)
  have l: "l_deltas env_fresh \<noteq> l_deltas env_used" by (simp add: env_fresh_def env_used_def)
  have v: "fst (analyze_points libm_nearest env_fresh) = Inr \<lparr>delta = PyInt 0, home_id = 2\<rparr>"
    by code_simp
  from h g l v analyze_points_deterministic [OF h, of libm_nearest] show ?thesis by simp
qed

text \<open>
  C8. A call, whether it returns or raises, leaves the list passed as \<^verbatim>\<open>points\<close>
  (the records and their fields) and the module's global as they were; only the
  local list \<^verbatim>\<open>deltas\<close> is written.
\<close>

theorem analyze_points_frame:
  "a_points (snd (analyze_points libm s)) = a_points s
     \<and> g_data (snd (analyze_points libm s)) = g_data s"
  using for_loop_frame [of libm "py_range 1 (int (length (a_points s)) - 1)"
      "s\<lparr>l_deltas := []\<rparr>"]
  unfolding analyze_points_def Let_def
  by (auto split: prod.splits sum.splits)

text \<open>
  C9, as the code has it. On a well-formed input of \<open>n \<ge> 3\<close> points the future window
  of the last candidate, \<open>i = n - 2\<close>, is empty and its current sum is the int 0, so
  its round appends delta 0, unless the square of its voltage difference overflows,
  and then the round raises \<^verbatim>\<open>OverflowError\<close>. So a call on exactly three points
  returns delta 0 with the identifier of the middle point, or raises
  \<^verbatim>\<open>OverflowError\<close>.
\<close>

theorem last_candidate_zero:
  assumes "list_all valid_point points" and "3 \<le> length points"
  shows "future_ampers points (length points - 2) = PyInt 0
    \<and> loop_body libm points (length points - 2) =
        (if volt_diff_sq libm points (length points - 2) = Inl OverflowError
         then Inl OverflowError
         else Inr \<lparr>delta = PyInt 0, home_id = identifier_of (points ! (length points - 2))\<rparr>)
    \<and> (length points = 3 \<longrightarrow>
         call_analyze libm g points =
           (if volt_diff_sq libm points 1 = Inl OverflowError then Inl OverflowError
            else Inr \<lparr>delta = PyInt 0, home_id = identifier_of (points ! 1)\<rparr>))"
proof -
  let ?i = "length points - 2"
  have i: "?i + 1 < length points" using assms(2) by simp
  have f: "future_ampers points ?i = PyInt 0"
    using assms(2) by (intro future_ampers_last) simp
  then have g: "py_eq0 (future_ampers points ?i) \<or> fl_eq0 (resistance_of (points ! ?i))"
    by (simp add: py_eq0_def)
  note b = loop_body_guarded [OF assms(1) i g, of libm]
  have "call_analyze libm g points =
           (if volt_diff_sq libm points 1 = Inl OverflowError then Inl OverflowError
            else Inr \<lparr>delta = PyInt 0, home_id = identifier_of (points ! 1)\<rparr>)"
    if n: "length points = 3"
  proof -
    have r: "py_range 1 (int (length points) - 1) = [1]"
      using n by (simp add: py_range_def upt_conv_Cons)
    have "call_analyze libm g points = loop_body libm points 1"
      unfolding call_analyze_def analyze_points_def Let_def
      using r by (simp add: py_max_def split: sum.splits)
    then show ?thesis using b n by simp
  qed
  with f b show ?thesis by blast
qed

theorem last_candidate_zero_witness:
  "list_all valid_point sample3 \<and> 3 \<le> length sample3 \<and> length sample3 = 3
   \<and> loop_body libm_nearest sample3 (length sample3 - 2)
       = Inr \<lparr>delta = PyInt 0, home_id = 2\<rparr>
   \<and> call_analyze libm_nearest sample5 sample3 = Inr \<lparr>delta = PyInt 0, home_id = 2\<rparr>"
proof -
  have h1: "list_all valid_point sample3" by code_simp
  have h2: "3 \<le> length sample3" and h3: "length sample3 = 3" by (simp_all add: sample3_def)
  have v: "volt_diff_sq libm_nearest sample3 1 = Inr (mk 4 0)" by code_simp
  have k: "identifier_of (sample3 ! 1) = 2" by code_simp
  from last_candidate_zero [OF h1 h2, of libm_nearest sample5] h1 h2 h3 v k
  show ?thesis by simp
qed

text \<open>
  C9, as the specification words it, fails: the last candidate of the well-formed
  \<open>sample_last_over\<close> gets no delta, its round raises \<^verbatim>\<open>OverflowError\<close>, and so does
  the call.
\<close>

theorem last_candidate_counterexample:
  "list_all valid_point sample_last_over \<and> length sample_last_over - 2 = 2
   \<and> loop_body libm_nearest sample_last_over 2 = Inl OverflowError
   \<and> call_analyze libm_nearest [] sample_last_over = Inl OverflowError"
proof -
  have "list_all valid_point sample_last_over" by code_simp
  moreover have "length sample_last_over - 2 = 2" by (simp add: sample_last_over_def)
  moreover have "loop_body libm_nearest sample_last_over 2 = Inl OverflowError" by code_simp
  moreover have "call_analyze libm_nearest [] sample_last_over = Inl OverflowError"
    by code_simp
  ultimately show ?thesis by simp
qed




end
